theory Spec2Isabelle
  imports Main "HOL-Library.Word"
begin

section \<open>JavaScript strings and the built-ins the components call\<close>

text \<open>
  A JavaScript string is a sequence of 16-bit code units. The literal helper \<open>str\<close>
  turns an ASCII literal into such a sequence, one code unit per character.
\<close>

type_synonym jsstring = "16 word list"

definition str :: "string \<Rightarrow> jsstring" where
  "str cs = map of_char cs"

definition dot :: "16 word" where
  "dot = 0x2E"

text \<open>
  \<open>String.prototype.trim\<close> strips the code units that ECMAScript calls WhiteSpace or
  LineTerminator from both ends: TAB, LF, VT, FF, CR, SPACE, NBSP, U+1680, U+2000 to U+200A,
  U+2028, U+2029, U+202F, U+205F, U+3000 and U+FEFF.
\<close>

definition isWhiteSpace :: "16 word \<Rightarrow> bool" where
  "isWhiteSpace c =
     (c \<in> set [0x9, 0xA, 0xB, 0xC, 0xD, 0x20, 0xA0, 0x1680, 0x2028, 0x2029,
                0x202F, 0x205F, 0x3000, 0xFEFF]
      \<or> (0x2000 \<le> c \<and> c \<le> 0x200A))"

definition trim :: "jsstring \<Rightarrow> jsstring" where
  "trim s = rev (dropWhile isWhiteSpace (rev (dropWhile isWhiteSpace s)))"

text \<open>
  \<open>String.prototype.split\<close> with a one-unit separator: the pieces between the
  separators, in order; the empty string gives one empty piece.
\<close>

fun split :: "'a \<Rightarrow> 'a list \<Rightarrow> 'a list list" where
  "split sep [] = [[]]"
| "split sep (c # cs) =
     (if c = sep then [] # split sep cs
      else (case split sep cs of [] \<Rightarrow> [[c]] | p # ps \<Rightarrow> (c # p) # ps))"

text \<open>\<open>Array.prototype.pop\<close>: the last element, \<open>undefined\<close> (here \<open>None\<close>) on an empty array.\<close>

definition pop :: "'a list \<Rightarrow> 'a option" where
  "pop xs = (if xs = [] then None else Some (last xs))"

text \<open>
  The substring after the final occurrence of a separator, written without \<open>split\<close>:
  the longest suffix that holds no separator. It is what the validity rule of the export
  dialog is stated with; \<open>pop_split\<close> below relates it to the code's \<open>split('.').pop()\<close>.
\<close>

definition afterLast :: "'a \<Rightarrow> 'a list \<Rightarrow> 'a list" where
  "afterLast sep s = rev (takeWhile (\<lambda>c. c \<noteq> sep) (rev s))"

section \<open>Calls out of a component\<close>

text \<open>
  A handler's observable behaviour is the list of calls it makes, in order: a line on the
  console, or a host callback (a prop of type \<open>'cb\<close>) applied to string arguments.
  A prop that is \<open>undefined\<close> is \<open>None\<close>.
\<close>

datatype 'cb effect = ConsoleLog jsstring | Invoke 'cb "jsstring list"

section \<open>ExportModal\<close>

datatype inputType = Text | Password

record preformattedExtension =
  opt_extension :: "jsstring option"
  opt_description :: "jsstring option"

text \<open>The fields of \<open>inputProps\<close> that the component reads.\<close>

record 'cb inputProps =
  invalid :: bool
  onChange :: "'cb option"
  onBlur :: "'cb option"

text \<open>
  The props that decide behaviour. The optional booleans \<open>error\<close>, \<open>loading\<close> and
  \<open>successful\<close> are only ever tested for truthiness, so \<open>undefined\<close> is \<open>False\<close>.
  \<open>validExtensions\<close> is compared with strings only, so it is a list of strings.
\<close>

record 'cb exportModalProps =
  error :: bool
  errorMessage :: "jsstring option"
  filename :: jsstring
  inputProps :: "'cb inputProps option"
  inputType :: inputType
  loading :: bool
  loadingMessage :: "jsstring option"
  onRequestSubmit :: "'cb option"
  preformattedExtensions :: "preformattedExtension list"
  successMessage :: "jsstring option"
  successful :: bool
  validExtensions :: "jsstring list"

text \<open>The three \<open>useState\<close> cells and their initial values.\<close>

record exportModalState =
  name :: jsstring
  dirtyInput :: bool
  extension :: jsstring

definition initialState :: exportModalState where
  "initialState = \<lparr>name = [], dirtyInput = False, extension = []\<rparr>"

text \<open>
  The body of the effect that React runs after mounting and after every render in which
  \<open>filename\<close>, \<open>preformattedExtensions\<close> or \<open>open\<close> has changed. Its guard
  \<open>preformattedExtensions[0]?.extension\<close> is truthy for a string that is present and
  non-empty.
\<close>

definition useEffect :: "'cb exportModalProps \<Rightarrow> exportModalState \<Rightarrow> exportModalState" where
  "useEffect p s =
     (let s1 = s\<lparr>name := filename p\<rparr> in
      case preformattedExtensions p of
        [] \<Rightarrow> s1
      | e # _ \<Rightarrow>
          (case opt_extension e of
             None \<Rightarrow> s1
           | Some x \<Rightarrow> if x = [] then s1 else s1\<lparr>extension := x\<rparr>))"

definition onNameChangeHandler ::
  "'cb exportModalProps \<Rightarrow> jsstring \<Rightarrow> exportModalState \<Rightarrow> exportModalState \<times> 'cb effect list" where
  "onNameChangeHandler p v s =
     (s\<lparr>name := v\<rparr>,
      case inputProps p of
        None \<Rightarrow> []
      | Some ip \<Rightarrow> (case onChange ip of None \<Rightarrow> [] | Some f \<Rightarrow> [Invoke f [v]]))"

definition onExtensionChangeHandler :: "jsstring \<Rightarrow> exportModalState \<Rightarrow> exportModalState" where
  "onExtensionChangeHandler v s = s\<lparr>extension := v\<rparr>"

definition onBlurHandler ::
  "'cb exportModalProps \<Rightarrow> jsstring \<Rightarrow> exportModalState \<Rightarrow> exportModalState \<times> 'cb effect list" where
  "onBlurHandler p v s =
     (s\<lparr>dirtyInput := True\<rparr>,
      case inputProps p of
        None \<Rightarrow> []
      | Some ip \<Rightarrow> (case onBlur ip of None \<Rightarrow> [] | Some f \<Rightarrow> [Invoke f [v]]))"

text \<open>
  \<open>toLocaleLowerCase\<close> depends on the locale of the host, so it is a parameter. The
  extension state is truthy when it is non-empty. The handler calls \<open>onRequestSubmit\<close>
  only when the host has supplied it.
\<close>

definition returnName ::
  "(jsstring \<Rightarrow> jsstring) \<Rightarrow> 'cb exportModalProps \<Rightarrow> exportModalState \<Rightarrow> jsstring" where
  "returnName toLocaleLowerCase p s =
     (if extension s \<noteq> [] then filename p @ [dot] @ toLocaleLowerCase (extension s)
      else name s)"

definition onSubmitHandler ::
  "(jsstring \<Rightarrow> jsstring) \<Rightarrow> 'cb exportModalProps \<Rightarrow> exportModalState \<Rightarrow> 'cb effect list" where
  "onSubmitHandler toLocaleLowerCase p s =
     (case onRequestSubmit p of
        None \<Rightarrow> []
      | Some f \<Rightarrow> [Invoke f [returnName toLocaleLowerCase p s]])"

text \<open>
  \<open>validExtensions\<close> has an array type and the default \<open>[]\<close>, so it is never
  falsy itself: the first test comes down to \<open>!dirtyInput\<close> or an empty array.
\<close>

definition hasInvalidExtension :: "'cb exportModalProps \<Rightarrow> exportModalState \<Rightarrow> bool" where
  "hasInvalidExtension p s =
     (if \<not> dirtyInput s \<or> validExtensions p = [] then False
      else if dot \<notin> set (name s) then True
      else (case pop (split dot (name s)) of
              None \<Rightarrow> True
            | Some ext \<Rightarrow> if ext \<notin> set (validExtensions p) then True else False))"

definition inputProps_invalid :: "'cb exportModalProps \<Rightarrow> bool" where
  "inputProps_invalid p = (case inputProps p of None \<Rightarrow> False | Some ip \<Rightarrow> invalid ip)"

definition primaryButtonDisabled :: "'cb exportModalProps \<Rightarrow> exportModalState \<Rightarrow> bool" where
  "primaryButtonDisabled p s =
     (inputProps_invalid p
      \<or> loading p
      \<or> (if inputType p = Text then trim (name s) = [] else name s = [])
      \<or> hasInvalidExtension p s)"

definition submitted :: "'cb exportModalProps \<Rightarrow> bool" where
  "submitted p = (loading p \<or> error p \<or> successful p)"

text \<open>
  What the component renders, as far as the claims go: the form (absent once submitted),
  the messages in the order of the source, and the footer (absent once submitted) with
  the \<open>disabled\<close> attribute of its primary button.
\<close>

datatype formView =
    RadioButtonGroup jsstring "jsstring option list"
  | TextInput jsstring bool
  | PasswordInput jsstring bool

datatype messageView =
    LoadingMessage "jsstring option"
  | SuccessMessage "jsstring option"
  | ErrorMessage "jsstring option"

datatype footerView = ModalFooter (primaryDisabled: bool)

record modalView =
  form :: "formView option"
  messaging :: "messageView list"
  footer :: "footerView option"

definition ExportModal :: "'cb exportModalProps \<Rightarrow> exportModalState \<Rightarrow> modalView" where
  "ExportModal p s =
     \<lparr>form =
        (if submitted p then None
         else Some
           (if preformattedExtensions p \<noteq> []
            then RadioButtonGroup (extension s) (map opt_extension (preformattedExtensions p))
            else if inputType p = Text
            then TextInput (name s) (inputProps_invalid p \<or> hasInvalidExtension p s)
            else PasswordInput (name s) (inputProps_invalid p \<or> hasInvalidExtension p s))),
      messaging =
        (if loading p then [LoadingMessage (loadingMessage p)] else [])
        @ (if successful p then [SuccessMessage (successMessage p)] else [])
        @ (if error p then [ErrorMessage (errorMessage p)] else []),
      footer =
        (if submitted p then None else Some (ModalFooter (primaryButtonDisabled p s)))\<rparr>"

text \<open>
  A click on the primary button reaches \<open>onSubmitHandler\<close> only when the button is on the
  page and not disabled: a disabled button dispatches no click.
\<close>

definition clickPrimary ::
  "(jsstring \<Rightarrow> jsstring) \<Rightarrow> 'cb exportModalProps \<Rightarrow> exportModalState \<Rightarrow> 'cb effect list" where
  "clickPrimary toLocaleLowerCase p s =
     (case footer (ExportModal p s) of
        None \<Rightarrow> []
      | Some ft \<Rightarrow> if primaryDisabled ft then [] else onSubmitHandler toLocaleLowerCase p s)"

text \<open>
  The user's actions on the form, and the state after a sequence of them. A blur event
  carries the current value of the field.
\<close>

datatype event = Change jsstring | Blur | SelectExtension jsstring

fun step :: "'cb exportModalProps \<Rightarrow> exportModalState \<Rightarrow> event \<Rightarrow> exportModalState" where
  "step p s (Change v) = fst (onNameChangeHandler p v s)"
| "step p s Blur = fst (onBlurHandler p (name s) s)"
| "step p s (SelectExtension v) = onExtensionChangeHandler v s"

definition run :: "'cb exportModalProps \<Rightarrow> exportModalState \<Rightarrow> event list \<Rightarrow> exportModalState" where
  "run p s evs = foldl (step p) s evs"

text \<open>
  The component's defaults (\<open>inputType\<close> text, no preformatted and no valid extensions),
  every optional prop left out and an empty file name; and a lower-casing of the ASCII
  letters, for the examples. Host callbacks are named by strings in the examples.
\<close>

definition defaults :: "string exportModalProps" where
  "defaults =
     \<lparr>error = False, errorMessage = None, filename = [], inputProps = None,
      inputType = Text, loading = False, loadingMessage = None, onRequestSubmit = None,
      preformattedExtensions = [], successMessage = None, successful = False,
      validExtensions = []\<rparr>"

definition asciiLowerCase :: "jsstring \<Rightarrow> jsstring" where
  "asciiLowerCase s = map (\<lambda>c. if 0x41 \<le> c \<and> c \<le> 0x5A then c + 0x20 else c) s"

section \<open>ModifiedTabs\<close>

record 'node tab =
  tab_id :: jsstring
  label :: jsstring
  content :: 'node

record ('cb, 'node) modifiedTabsProps =
  tabs :: "'node tab list"
  newTabLabel :: jsstring
  newTabContent :: 'node
  onNewTab :: "'cb option"
  onCloseTab :: "'cb option"

definition handleNewTab :: "('cb, 'node) modifiedTabsProps \<Rightarrow> 'cb effect list" where
  "handleNewTab p =
     (case onNewTab p of
        None \<Rightarrow> []
      | Some f \<Rightarrow> [ConsoleLog (str ''new tab''), Invoke f []])"

definition handleClose :: "('cb, 'node) modifiedTabsProps \<Rightarrow> jsstring \<Rightarrow> 'cb effect list" where
  "handleClose p i =
     (case onCloseTab p of
        None \<Rightarrow> []
      | Some f \<Rightarrow> [Invoke f [i]])"

text \<open>
  The rendered strip: one \<open>Tab\<close> element per child of \<open>Tabs\<close>, with its id, its label
  element and its content. A label element carries its text and its handler, the handler
  given by the calls it makes when the label's close or click affordance fires.
\<close>

datatype 'cb tabLabel =
    ModifiedTabLabel jsstring "'cb effect list"
  | ModifiedTabNew jsstring "'cb effect list"

datatype ('cb, 'node) tabView = Tab jsstring "'cb tabLabel" 'node

definition ModifiedTabs :: "('cb, 'node) modifiedTabsProps \<Rightarrow> ('cb, 'node) tabView list" where
  "ModifiedTabs p =
     map (\<lambda>t. Tab (tab_id t) (ModifiedTabLabel (label t) (handleClose p (tab_id t))) (content t))
       (tabs p)
     @ [Tab (str ''tab-new'') (ModifiedTabNew (newTabLabel p) (handleNewTab p)) (newTabContent p)]"

text \<open>
  \<open>ModifiedTabs.defaultProps\<close>. A content node is given by its text in the examples.
\<close>

definition defaultProps :: "(string, jsstring) modifiedTabsProps" where
  "defaultProps =
     \<lparr>tabs = [\<lparr>tab_id = str ''tab-1'', label = str ''Tab 1'',
               content = str ''Iam am the content of tab 1.''\<rparr>],
      newTabLabel = str ''New tab'',
      newTabContent = str ''Your new tab will be here soon'',
      onNewTab = None,
      onCloseTab = None\<rparr>"

section \<open>TagOverflow\<close>

text \<open>
  Modelled from the spec: the source of the TagOverflow component is not among the files,
  only its documentation page is. The page and the specification say that the toggletip
  lists up to 10 of the tags that did not fit, and that with more than 10 of them it also
  holds a link that opens a list of all tags. The result is the listed tags and whether
  the link is shown.
\<close>

definition tagOverflowPopover :: "'tag list \<Rightarrow> 'tag list \<times> bool" where
  "tagOverflowPopover overflowTags = (take 10 overflowTags, 10 < length overflowTags)"

section \<open>Facts about the string built-ins\<close>

lemma split_not_Nil: "split sep cs \<noteq> []"
  by (induction cs) (auto split: list.splits)

lemma split_no_sep: "sep \<notin> set cs \<Longrightarrow> split sep cs = [cs]"
  by (induction cs) auto

lemma afterLast_Cons:
  "afterLast sep (c # cs) =
     (if sep \<in> set cs then afterLast sep cs else if c = sep then cs else c # cs)"
proof (cases "sep \<in> set cs")
  case True
  then show ?thesis
    by (auto simp: afterLast_def takeWhile_append)
next
  case False
  then have all: "\<forall>x\<in>set (rev cs). x \<noteq> sep" by auto
  then have "takeWhile (\<lambda>c. c \<noteq> sep) (rev cs) = rev cs"
    by (simp add: takeWhile_eq_all_conv)
  with all False show ?thesis
    by (simp add: afterLast_def takeWhile_append)
qed

lemma split_two_pieces: "sep \<in> set cs \<Longrightarrow> tl (split sep cs) \<noteq> []"
proof (induction cs)
  case Nil
  then show ?case by simp
next
  case (Cons c cs)
  show ?case
  proof (cases "c = sep")
    case True
    then show ?thesis by (simp add: split_not_Nil)
  next
    case False
    with Cons.prems have "sep \<in> set cs" by auto
    then have "tl (split sep cs) \<noteq> []" by (rule Cons.IH)
    with False show ?thesis by (auto split: list.splits)
  qed
qed

lemma last_split: "last (split sep cs) = afterLast sep cs"
proof (induction cs)
  case Nil
  show ?case by (simp add: afterLast_def)
next
  case (Cons c cs)
  show ?case
  proof (cases "sep \<in> set cs")
    case False
    then show ?thesis
      by (simp add: afterLast_Cons split_no_sep)
  next
    case True
    then have two: "tl (split sep cs) \<noteq> []" by (rule split_two_pieces)
    then obtain p q ps where sp: "split sep cs = p # q # ps"
      by (cases "split sep cs"; cases "tl (split sep cs)") auto
    with Cons.IH True show ?thesis
      by (simp add: afterLast_Cons)
  qed
qed

lemma pop_split: "pop (split sep cs) = Some (afterLast sep cs)"
  by (simp add: pop_def split_not_Nil last_split)

lemma afterLast_append:
  "sep \<notin> set suf \<Longrightarrow> afterLast sep (pre @ sep # suf) = suf"
  by (simp add: afterLast_def takeWhile_append takeWhile_eq_all_conv)

lemma trim_empty_iff: "trim s = [] \<longleftrightarrow> (\<forall>c\<in>set s. isWhiteSpace c)"
proof
  assume "trim s = []"
  then have "\<forall>c\<in>set (dropWhile isWhiteSpace s). isWhiteSpace c"
    by (simp add: trim_def)
  then have "dropWhile isWhiteSpace s = []"
    by (metis hd_dropWhile hd_in_set)
  then show "\<forall>c\<in>set s. isWhiteSpace c"
    by simp
next
  assume "\<forall>c\<in>set s. isWhiteSpace c"
  then have "dropWhile isWhiteSpace s = []"
    by simp
  then show "trim s = []"
    unfolding trim_def by (simp del: dropWhile_eq_Nil_conv)
qed

section \<open>Facts about the handlers\<close>

lemma useEffect_name: "name (useEffect p s) = filename p"
  by (simp add: useEffect_def Let_def split: list.splits option.splits)

lemma useEffect_dirtyInput: "dirtyInput (useEffect p s) = dirtyInput s"
  by (simp add: useEffect_def Let_def split: list.splits option.splits)

lemma footer_None_iff: "footer (ExportModal p s) = None \<longleftrightarrow> submitted p"
  by (simp add: ExportModal_def)

lemma clickPrimary_submitted: "submitted p \<Longrightarrow> clickPrimary lc p s = []"
  by (simp add: clickPrimary_def ExportModal_def)

lemma clickPrimary_disabled: "primaryButtonDisabled p s \<Longrightarrow> clickPrimary lc p s = []"
  by (simp add: clickPrimary_def ExportModal_def)

lemma hasInvalidExtension_iff:
  "hasInvalidExtension p s \<longleftrightarrow>
     dirtyInput s \<and> validExtensions p \<noteq> []
     \<and> (dot \<notin> set (name s) \<or> afterLast dot (name s) \<notin> set (validExtensions p))"
  by (auto simp: hasInvalidExtension_def pop_split)

section \<open>ExportModal: validity of the entered name\<close>

text \<open>
  C1 as it stands fails. A password input is not trimmed: holding two spaces it leaves
  the primary button enabled although the trimmed name is empty. And a text input that
  the host has marked invalid through \<open>inputProps\<close> disables the button for report.csv,
  a name that is non-empty after trimming, in a field that is not dirty.
\<close>

theorem untrimmed_password_name_counterexample:
  "trim (str ''  '') = []
   \<and> \<not> primaryButtonDisabled (defaults\<lparr>inputType := Password\<rparr>)
         \<lparr>name = str ''  '', dirtyInput = False, extension = []\<rparr>
   \<and> trim (str ''report.csv'') \<noteq> []
   \<and> primaryButtonDisabled
        (defaults\<lparr>inputProps := Some \<lparr>invalid = True, onChange = None, onBlur = None\<rparr>\<rparr>)
        \<lparr>name = str ''report.csv'', dirtyInput = False, extension = []\<rparr>"
  by (simp add: primaryButtonDisabled_def inputProps_invalid_def hasInvalidExtension_def
      defaults_def trim_def str_def isWhiteSpace_def)

text \<open>
  C1, amended. The primary button is enabled (the input is valid) exactly when the host
  has not marked the input invalid, the dialog is not loading, the name is non-empty,
  after trimming in a text input and as typed in a password input, and, once the field is
  dirty, either no valid extensions are given or the name holds a dot and what follows its
  last dot is one of the valid extensions. While the field is not dirty the extensions
  play no part.
\<close>

theorem export_input_validity:
  "\<not> primaryButtonDisabled p s \<longleftrightarrow>
     \<not> inputProps_invalid p
     \<and> \<not> loading p
     \<and> (if inputType p = Text then trim (name s) \<noteq> [] else name s \<noteq> [])
     \<and> (dirtyInput s \<longrightarrow>
          validExtensions p = []
          \<or> (dot \<in> set (name s) \<and> afterLast dot (name s) \<in> set (validExtensions p)))"
proof -
  have "primaryButtonDisabled p s \<longleftrightarrow>
          inputProps_invalid p \<or> loading p
          \<or> (if inputType p = Text then trim (name s) = [] else name s = [])
          \<or> (dirtyInput s \<and> validExtensions p \<noteq> []
              \<and> (dot \<notin> set (name s) \<or> afterLast dot (name s) \<notin> set (validExtensions p)))"
    by (simp only: primaryButtonDisabled_def hasInvalidExtension_iff)
  then show ?thesis
    by (cases "inputType p = Text") auto
qed

text \<open>
  C1 as amended, at inputs: with valid extensions csv and pdf, a dirty text field holding
  report.v2.csv is valid, report.txt is not, and report.txt is valid while the field is
  not dirty; a dirty password field holding two spaces and then .csv is valid.
\<close>

theorem export_input_validity_witness:
  "\<not> primaryButtonDisabled (defaults\<lparr>validExtensions := [str ''csv'', str ''pdf'']\<rparr>)
       \<lparr>name = str ''report.v2.csv'', dirtyInput = True, extension = []\<rparr>
   \<and> primaryButtonDisabled (defaults\<lparr>validExtensions := [str ''csv'', str ''pdf'']\<rparr>)
       \<lparr>name = str ''report.txt'', dirtyInput = True, extension = []\<rparr>
   \<and> \<not> primaryButtonDisabled (defaults\<lparr>validExtensions := [str ''csv'', str ''pdf'']\<rparr>)
       \<lparr>name = str ''report.txt'', dirtyInput = False, extension = []\<rparr>
   \<and> \<not> primaryButtonDisabled
         (defaults\<lparr>inputType := Password, validExtensions := [str ''csv'', str ''pdf'']\<rparr>)
         \<lparr>name = str ''  .csv'', dirtyInput = True, extension = []\<rparr>"
proof -
  let ?p = "defaults\<lparr>validExtensions := [str ''csv'', str ''pdf'']\<rparr>"
  let ?q = "defaults\<lparr>inputType := Password, validExtensions := [str ''csv'', str ''pdf'']\<rparr>"
  have h: "inputType ?p = Text" "\<not> loading ?p" "\<not> inputProps_invalid ?p"
    "validExtensions ?p = [str ''csv'', str ''pdf'']"
    by (simp_all add: defaults_def inputProps_invalid_def)
  have k: "inputType ?q = Password" "\<not> loading ?q" "\<not> inputProps_invalid ?q"
    "validExtensions ?q = [str ''csv'', str ''pdf'']"
    by (simp_all add: defaults_def inputProps_invalid_def)
  have a: "afterLast dot (str ''report.v2.csv'') = str ''csv''"
    "afterLast dot (str ''report.txt'') = str ''txt''"
    "afterLast dot (str ''  .csv'') = str ''csv''"
    by (simp_all add: afterLast_def dot_def str_def)
  have t: "trim (str ''report.v2.csv'') \<noteq> []" "trim (str ''report.txt'') \<noteq> []"
    by (simp_all add: trim_def str_def isWhiteSpace_def)
  have d: "dot \<in> set (str ''report.v2.csv'')" "dot \<in> set (str ''  .csv'')"
    by (simp_all add: dot_def str_def)
  have ne: "str ''txt'' \<noteq> str ''csv''" "str ''txt'' \<noteq> str ''pdf''" "str ''  .csv'' \<noteq> []"
    by (simp_all add: str_def)
  have 1: "\<not> primaryButtonDisabled ?p
             \<lparr>name = str ''report.v2.csv'', dirtyInput = True, extension = []\<rparr>"
    using export_input_validity [of ?p "\<lparr>name = str ''report.v2.csv'', dirtyInput = True, extension = []\<rparr>"]
      h a t d by simp
  have 2: "primaryButtonDisabled ?p
             \<lparr>name = str ''report.txt'', dirtyInput = True, extension = []\<rparr>"
    using export_input_validity [of ?p "\<lparr>name = str ''report.txt'', dirtyInput = True, extension = []\<rparr>"]
      h a ne by simp
  have 3: "\<not> primaryButtonDisabled ?p
             \<lparr>name = str ''report.txt'', dirtyInput = False, extension = []\<rparr>"
    using export_input_validity [of ?p "\<lparr>name = str ''report.txt'', dirtyInput = False, extension = []\<rparr>"]
      h t by simp
  have 4: "\<not> primaryButtonDisabled ?q
             \<lparr>name = str ''  .csv'', dirtyInput = True, extension = []\<rparr>"
    using export_input_validity [of ?q "\<lparr>name = str ''  .csv'', dirtyInput = True, extension = []\<rparr>"]
      k a d ne by simp
  from 1 2 3 4 show ?thesis by blast
qed

section \<open>ExportModal: when submitting is possible\<close>

text \<open>
  C2. While \<open>loading\<close>, \<open>error\<close> or \<open>successful\<close> is true the footer with the primary
  button is not rendered, so a click cannot reach \<open>onRequestSubmit\<close>. While it is rendered,
  the primary button is disabled, and a click makes no call, whenever \<open>loading\<close> is true or
  the name is invalid: empty, white space only in a text input, or, once dirty and with
  valid extensions given, without a dot or with something else after its last dot.
\<close>

theorem submit_gated:
  "(loading p \<or> error p \<or> successful p \<longrightarrow>
      footer (ExportModal p s) = None \<and> clickPrimary lc p s = [])
   \<and> (loading p
        \<or> name s = []
        \<or> (inputType p = Text \<and> trim (name s) = [])
        \<or> (dirtyInput s \<and> validExtensions p \<noteq> []
            \<and> (dot \<notin> set (name s) \<or> afterLast dot (name s) \<notin> set (validExtensions p)))
      \<longrightarrow> primaryButtonDisabled p s \<and> clickPrimary lc p s = [])"
proof (intro conjI impI)
  assume "loading p \<or> error p \<or> successful p"
  then have "submitted p" by (simp add: submitted_def)
  then show "footer (ExportModal p s) = None" and "clickPrimary lc p s = []"
    by (simp_all add: footer_None_iff clickPrimary_submitted)
next
  assume bad: "loading p
        \<or> name s = []
        \<or> (inputType p = Text \<and> trim (name s) = [])
        \<or> (dirtyInput s \<and> validExtensions p \<noteq> []
            \<and> (dot \<notin> set (name s) \<or> afterLast dot (name s) \<notin> set (validExtensions p)))"
  have "name s = [] \<Longrightarrow> trim (name s) = []" by (simp add: trim_def)
  with bad show "primaryButtonDisabled p s"
    unfolding primaryButtonDisabled_def hasInvalidExtension_iff by auto
  then show "clickPrimary lc p s = []" by (rule clickPrimary_disabled)
qed

text \<open>
  C2, at inputs: while loading a click makes no call; a text input holding two spaces
  disables the button; with the name report and nothing in the way the click passes
  report to \<open>onRequestSubmit\<close>.
\<close>

theorem submit_gated_witness:
  "loading (defaults\<lparr>filename := str ''report'', loading := True,
                      onRequestSubmit := Some ''onRequestSubmit''\<rparr>)
   \<and> clickPrimary asciiLowerCase
        (defaults\<lparr>filename := str ''report'', loading := True,
                  onRequestSubmit := Some ''onRequestSubmit''\<rparr>)
        \<lparr>name = str ''report'', dirtyInput = False, extension = []\<rparr> = []
   \<and> inputType (defaults\<lparr>onRequestSubmit := Some ''onRequestSubmit''\<rparr>) = Text
   \<and> trim (str ''  '') = []
   \<and> primaryButtonDisabled (defaults\<lparr>onRequestSubmit := Some ''onRequestSubmit''\<rparr>)
        \<lparr>name = str ''  '', dirtyInput = False, extension = []\<rparr>
   \<and> clickPrimary asciiLowerCase (defaults\<lparr>onRequestSubmit := Some ''onRequestSubmit''\<rparr>)
        \<lparr>name = str ''  '', dirtyInput = False, extension = []\<rparr> = []
   \<and> clickPrimary asciiLowerCase (defaults\<lparr>onRequestSubmit := Some ''onRequestSubmit''\<rparr>)
        \<lparr>name = str ''report'', dirtyInput = False, extension = []\<rparr>
       = [Invoke ''onRequestSubmit'' [str ''report'']]"
proof -
  let ?p1 = "defaults\<lparr>filename := str ''report'', loading := True,
                       onRequestSubmit := Some ''onRequestSubmit''\<rparr>"
  let ?p2 = "defaults\<lparr>onRequestSubmit := Some ''onRequestSubmit''\<rparr>"
  have l: "loading ?p1" by (simp add: defaults_def)
  have ty: "inputType ?p2 = Text" by (simp add: defaults_def)
  have tr: "trim (str ''  '') = []" by (simp add: trim_def str_def isWhiteSpace_def)
  have nm: "name \<lparr>name = str ''  '', dirtyInput = False, extension = []\<rparr> = str ''  ''" by simp
  have fire: "clickPrimary asciiLowerCase ?p2
        \<lparr>name = str ''report'', dirtyInput = False, extension = []\<rparr>
       = [Invoke ''onRequestSubmit'' [str ''report'']]"
    by (simp add: clickPrimary_def ExportModal_def submitted_def primaryButtonDisabled_def
        inputProps_invalid_def hasInvalidExtension_def onSubmitHandler_def returnName_def
        defaults_def trim_def str_def isWhiteSpace_def)
  from l submit_gated [of ?p1 "\<lparr>name = str ''report'', dirtyInput = False, extension = []\<rparr>" asciiLowerCase]
  have a: "clickPrimary asciiLowerCase ?p1
        \<lparr>name = str ''report'', dirtyInput = False, extension = []\<rparr> = []"
    by blast
  from ty tr nm submit_gated [of ?p2 "\<lparr>name = str ''  '', dirtyInput = False, extension = []\<rparr>" asciiLowerCase]
  have b: "primaryButtonDisabled ?p2 \<lparr>name = str ''  '', dirtyInput = False, extension = []\<rparr>
      \<and> clickPrimary asciiLowerCase ?p2 \<lparr>name = str ''  '', dirtyInput = False, extension = []\<rparr> = []"
    by presburger
  from l ty tr a b fire show ?thesis by blast
qed

section \<open>ExportModal: the preselected extension and the submitted file name\<close>

text \<open>
  C3 as it stands fails: a non-empty list whose first option has no extension preselects
  nothing, and the submitted name is the bare name, without a dot.
\<close>

theorem first_option_without_extension_counterexample:
  "preformattedExtensions
     (defaults\<lparr>filename := str ''report'', onRequestSubmit := Some ''onRequestSubmit'',
        preformattedExtensions :=
          [\<lparr>opt_extension = None, opt_description = Some (str ''as is'')\<rparr>,
           \<lparr>opt_extension = Some (str ''CSV''), opt_description = Some (str ''comma separated'')\<rparr>]\<rparr>)
     \<noteq> []
   \<and> extension
       (useEffect
          (defaults\<lparr>filename := str ''report'', onRequestSubmit := Some ''onRequestSubmit'',
             preformattedExtensions :=
               [\<lparr>opt_extension = None, opt_description = Some (str ''as is'')\<rparr>,
                \<lparr>opt_extension = Some (str ''CSV''), opt_description = Some (str ''comma separated'')\<rparr>]\<rparr>)
          initialState) = []
   \<and> clickPrimary asciiLowerCase
        (defaults\<lparr>filename := str ''report'', onRequestSubmit := Some ''onRequestSubmit'',
           preformattedExtensions :=
             [\<lparr>opt_extension = None, opt_description = Some (str ''as is'')\<rparr>,
              \<lparr>opt_extension = Some (str ''CSV''), opt_description = Some (str ''comma separated'')\<rparr>]\<rparr>)
        (useEffect
           (defaults\<lparr>filename := str ''report'', onRequestSubmit := Some ''onRequestSubmit'',
              preformattedExtensions :=
                [\<lparr>opt_extension = None, opt_description = Some (str ''as is'')\<rparr>,
                 \<lparr>opt_extension = Some (str ''CSV''), opt_description = Some (str ''comma separated'')\<rparr>]\<rparr>)
           initialState)
       = [Invoke ''onRequestSubmit'' [str ''report'']]
   \<and> dot \<notin> set (str ''report'')"
  by (simp add: clickPrimary_def ExportModal_def submitted_def primaryButtonDisabled_def
      inputProps_invalid_def hasInvalidExtension_def onSubmitHandler_def returnName_def
      useEffect_def initialState_def defaults_def trim_def str_def isWhiteSpace_def dot_def)

text \<open>
  C3, amended. When the first preformatted option has a non-empty extension, the effect
  that runs on opening, and whenever the \<open>filename\<close> prop changes, selects that extension;
  and with an \<open>onRequestSubmit\<close> callback, submitting then passes the \<open>filename\<close> prop,
  a dot and the lower-cased extension. The same holds of whichever non-empty extension is
  selected later.
\<close>

theorem preselected_extension_submitted:
  assumes "preformattedExtensions p = e # es" and "opt_extension e = Some x" and "x \<noteq> []"
    and "onRequestSubmit p = Some f"
  shows "extension (useEffect p s) = x
         \<and> onSubmitHandler lc p (useEffect p s) = [Invoke f [filename p @ [dot] @ lc x]]
         \<and> (extension s' \<noteq> [] \<longrightarrow>
              onSubmitHandler lc p s' = [Invoke f [filename p @ [dot] @ lc (extension s')]])"
  using assms by (simp add: useEffect_def onSubmitHandler_def returnName_def)

text \<open>C3, at an input: the options CSV and PDF with the file name report give report.csv.\<close>

theorem preselected_extension_submitted_witness:
  "extension
     (useEffect
        (defaults\<lparr>filename := str ''report'', onRequestSubmit := Some ''onRequestSubmit'',
           preformattedExtensions :=
             [\<lparr>opt_extension = Some (str ''CSV''), opt_description = Some (str ''comma separated'')\<rparr>,
              \<lparr>opt_extension = Some (str ''PDF''), opt_description = Some (str ''portable'')\<rparr>]\<rparr>)
        initialState) = str ''CSV''
   \<and> onSubmitHandler asciiLowerCase
        (defaults\<lparr>filename := str ''report'', onRequestSubmit := Some ''onRequestSubmit'',
           preformattedExtensions :=
             [\<lparr>opt_extension = Some (str ''CSV''), opt_description = Some (str ''comma separated'')\<rparr>,
              \<lparr>opt_extension = Some (str ''PDF''), opt_description = Some (str ''portable'')\<rparr>]\<rparr>)
        (useEffect
           (defaults\<lparr>filename := str ''report'', onRequestSubmit := Some ''onRequestSubmit'',
              preformattedExtensions :=
                [\<lparr>opt_extension = Some (str ''CSV''), opt_description = Some (str ''comma separated'')\<rparr>,
                 \<lparr>opt_extension = Some (str ''PDF''), opt_description = Some (str ''portable'')\<rparr>]\<rparr>)
           initialState)
       = [Invoke ''onRequestSubmit'' [str ''report.csv'']]"
proof -
  let ?e = "\<lparr>opt_extension = Some (str ''CSV''), opt_description = Some (str ''comma separated'')\<rparr>"
  let ?es = "[\<lparr>opt_extension = Some (str ''PDF''), opt_description = Some (str ''portable'')\<rparr>]"
  let ?p = "defaults\<lparr>filename := str ''report'', onRequestSubmit := Some ''onRequestSubmit'',
              preformattedExtensions := ?e # ?es\<rparr>"
  have h1: "preformattedExtensions ?p = ?e # ?es" by (simp add: defaults_def)
  have h2: "opt_extension ?e = Some (str ''CSV'')" by simp
  have h3: "str ''CSV'' \<noteq> []" by (simp add: str_def)
  have h4: "onRequestSubmit ?p = Some ''onRequestSubmit''" by (simp add: defaults_def)
  have f: "filename ?p @ [dot] @ asciiLowerCase (str ''CSV'') = str ''report.csv''"
    by (simp add: defaults_def dot_def asciiLowerCase_def str_def)
  from preselected_extension_submitted [OF h1 h2 h3 h4, of initialState asciiLowerCase] f
  show ?thesis by simp
qed

section \<open>ExportModal: what reopening resets\<close>

text \<open>
  C4 as it stands fails: after a blur the field is dirty, and the effect that runs when
  the dialog is reopened with another file name leaves it dirty.
\<close>

theorem dirty_flag_survives_reopen_counterexample:
  "dirtyInput
     (useEffect (defaults\<lparr>filename := str ''second''\<rparr>)
        (run (defaults\<lparr>filename := str ''first''\<rparr>)
           (useEffect (defaults\<lparr>filename := str ''first''\<rparr>) initialState)
           [Change (str ''first.csv''), Blur]))
   \<and> name
       (useEffect (defaults\<lparr>filename := str ''second''\<rparr>)
          (run (defaults\<lparr>filename := str ''first''\<rparr>)
             (useEffect (defaults\<lparr>filename := str ''first''\<rparr>) initialState)
             [Change (str ''first.csv''), Blur])) = str ''second''"
  by (simp add: run_def onNameChangeHandler_def onBlurHandler_def useEffect_def
      initialState_def defaults_def)

text \<open>
  C4, amended. In every state reached by edits, blurs and extension selections, the
  effect that runs on reopening with a new \<open>filename\<close> prop sets the name to the new file
  name and keeps the dirty flag as it is; it sets the selected extension to that of the
  first preformatted option when there is one and it is non-empty, and keeps the selected
  extension otherwise.
\<close>

theorem reopen_resets_name_and_extension:
  "name (useEffect p' (run p s evs)) = filename p'
   \<and> dirtyInput (useEffect p' (run p s evs)) = dirtyInput (run p s evs)
   \<and> extension (useEffect p' (run p s evs)) =
       (case preformattedExtensions p' of
          [] \<Rightarrow> extension (run p s evs)
        | e # es \<Rightarrow>
            (case opt_extension e of
               None \<Rightarrow> extension (run p s evs)
             | Some x \<Rightarrow> if x = [] then extension (run p s evs) else x))"
proof (intro conjI)
  show "name (useEffect p' (run p s evs)) = filename p'"
    by (rule useEffect_name)
  show "dirtyInput (useEffect p' (run p s evs)) = dirtyInput (run p s evs)"
    by (rule useEffect_dirtyInput)
  show "extension (useEffect p' (run p s evs)) =
       (case preformattedExtensions p' of
          [] \<Rightarrow> extension (run p s evs)
        | e # es \<Rightarrow>
            (case opt_extension e of
               None \<Rightarrow> extension (run p s evs)
             | Some x \<Rightarrow> if x = [] then extension (run p s evs) else x))"
    by (simp add: useEffect_def Let_def split: list.splits option.splits)
qed

section \<open>ExportModal: the outcome flags\<close>

text \<open>
  C5 as it stands fails: the outcome is three separate boolean props, and with \<open>loading\<close>
  and \<open>error\<close> both true the dialog shows both messages.
\<close>

theorem two_outcome_flags_counterexample:
  "loading (defaults\<lparr>error := True, loading := True\<rparr>)
   \<and> error (defaults\<lparr>error := True, loading := True\<rparr>)
   \<and> messaging (ExportModal (defaults\<lparr>error := True, loading := True\<rparr>) initialState)
       = [LoadingMessage None, ErrorMessage None]"
  by (simp add: ExportModal_def defaults_def)

text \<open>
  C5, amended. \<open>loading\<close>, \<open>successful\<close> and \<open>error\<close> are independent boolean props. The
  dialog shows the message of each flag that is true, so as many messages as flags are
  true, and it leaves out the form and the footer exactly when at least one flag is true.
\<close>

theorem outcome_flags_independent:
  "(LoadingMessage m \<in> set (messaging (ExportModal p s))) = (loading p \<and> m = loadingMessage p)
   \<and> (SuccessMessage m \<in> set (messaging (ExportModal p s))) = (successful p \<and> m = successMessage p)
   \<and> (ErrorMessage m \<in> set (messaging (ExportModal p s))) = (error p \<and> m = errorMessage p)
   \<and> (form (ExportModal p s) = None) = (loading p \<or> error p \<or> successful p)
   \<and> (footer (ExportModal p s) = None) = (loading p \<or> error p \<or> successful p)
   \<and> length (messaging (ExportModal p s)) = length (filter id [loading p, successful p, error p])"
  by (auto simp: ExportModal_def submitted_def)

section \<open>TagOverflow: the popover\<close>

text \<open>
  C6. The popover lists at most 10 of the overflow tags, the first 10, and it shows the
  link to the full list exactly when there are more than 10 of them.
\<close>

theorem popover_lists_at_most_ten:
  "length (fst (tagOverflowPopover ts)) \<le> 10
   \<and> fst (tagOverflowPopover ts) = take 10 ts
   \<and> snd (tagOverflowPopover ts) = (10 < length ts)"
  by (simp add: tagOverflowPopover_def)

section \<open>ModifiedTabs: the strip and its handlers\<close>

text \<open>
  C7. The strip is one tab per entry of \<open>tabs\<close>, in order, each with the entry's id, label
  and content, followed by the new tab, which is last whatever \<open>onNewTab\<close> is: the strip
  has one element more than \<open>tabs\<close>. A tab's close handler passes the tab's id to
  \<open>onCloseTab\<close> when the host has given one.
\<close>

theorem tab_per_entry_then_new_tab:
  "butlast (ModifiedTabs p) =
     map (\<lambda>t. Tab (tab_id t) (ModifiedTabLabel (label t) (handleClose p (tab_id t))) (content t))
       (tabs p)
   \<and> last (ModifiedTabs p) =
       Tab (str ''tab-new'') (ModifiedTabNew (newTabLabel p) (handleNewTab p)) (newTabContent p)
   \<and> length (ModifiedTabs p) = length (tabs p) + 1
   \<and> last (ModifiedTabs (p\<lparr>onNewTab := None\<rparr>)) =
       Tab (str ''tab-new'') (ModifiedTabNew (newTabLabel p) []) (newTabContent p)
   \<and> (onCloseTab p = Some f \<longrightarrow> handleClose p i = [Invoke f [i]])"
  by (simp add: ModifiedTabs_def handleClose_def handleNewTab_def)

text \<open>
  C7, at an input: the default props with an \<open>onCloseTab\<close> callback render tab-1 and
  then the new tab, and closing tab-1 passes its id to the callback.
\<close>

theorem tab_per_entry_then_new_tab_witness:
  "onCloseTab (defaultProps\<lparr>onCloseTab := Some ''onCloseTab''\<rparr>) = Some ''onCloseTab''
   \<and> handleClose (defaultProps\<lparr>onCloseTab := Some ''onCloseTab''\<rparr>) (str ''tab-1'')
       = [Invoke ''onCloseTab'' [str ''tab-1'']]
   \<and> ModifiedTabs (defaultProps\<lparr>onCloseTab := Some ''onCloseTab''\<rparr>)
       = [Tab (str ''tab-1'')
            (ModifiedTabLabel (str ''Tab 1'') [Invoke ''onCloseTab'' [str ''tab-1'']])
            (str ''Iam am the content of tab 1.''),
          Tab (str ''tab-new'') (ModifiedTabNew (str ''New tab'') [])
            (str ''Your new tab will be here soon'')]"
proof -
  let ?p = "defaultProps\<lparr>onCloseTab := Some ''onCloseTab''\<rparr>"
  have h: "onCloseTab ?p = Some ''onCloseTab''" by simp
  from tab_per_entry_then_new_tab [of ?p "''onCloseTab''" "str ''tab-1''"] h
  have c: "handleClose ?p (str ''tab-1'') = [Invoke ''onCloseTab'' [str ''tab-1'']]"
    and b: "butlast (ModifiedTabs ?p) =
       map (\<lambda>t. Tab (tab_id t) (ModifiedTabLabel (label t) (handleClose ?p (tab_id t))) (content t))
         (tabs ?p)"
    and l: "last (ModifiedTabs ?p) =
       Tab (str ''tab-new'') (ModifiedTabNew (newTabLabel ?p) (handleNewTab ?p)) (newTabContent ?p)"
    and n: "length (ModifiedTabs ?p) = length (tabs ?p) + 1"
    by blast+
  from n have ne: "ModifiedTabs ?p \<noteq> []" by auto
  have "ModifiedTabs ?p = butlast (ModifiedTabs ?p) @ [last (ModifiedTabs ?p)]"
    using ne by simp
  with b l c have "ModifiedTabs ?p
       = [Tab (str ''tab-1'')
            (ModifiedTabLabel (str ''Tab 1'') [Invoke ''onCloseTab'' [str ''tab-1'']])
            (str ''Iam am the content of tab 1.''),
          Tab (str ''tab-new'') (ModifiedTabNew (str ''New tab'') [])
            (str ''Your new tab will be here soon'')]"
    by (simp add: defaultProps_def handleNewTab_def)
  with h c show ?thesis by simp
qed

text \<open>
  C10. Without an \<open>onNewTab\<close> callback the new-tab handler makes no call at all, and
  without an \<open>onCloseTab\<close> callback neither does the close handler; the handlers have no
  other path, so nothing is raised.
\<close>

theorem undefined_callbacks_are_noops:
  "(onNewTab p = None \<longrightarrow> handleNewTab p = [])
   \<and> (onCloseTab p = None \<longrightarrow> handleClose p i = [])"
  by (simp add: handleNewTab_def handleClose_def)

text \<open>C10, at an input: the default props leave both callbacks out.\<close>

theorem undefined_callbacks_are_noops_witness:
  "onNewTab defaultProps = None \<and> onCloseTab defaultProps = None
   \<and> handleNewTab defaultProps = [] \<and> handleClose defaultProps (str ''tab-1'') = []"
proof -
  have h1: "onNewTab defaultProps = None" and h2: "onCloseTab defaultProps = None"
    by (simp_all add: defaultProps_def)
  from undefined_callbacks_are_noops [of defaultProps "str ''tab-1''"] h1 h2
  show ?thesis by blast
qed

section \<open>ExportModal: submitting in preformatted mode\<close>

text \<open>
  C8. While the selected extension is non-empty the submitted name is the \<open>filename\<close>
  prop, a dot and the lower-cased extension: editing the name, through the change handler
  or in any other way, does not change what \<open>onSubmitHandler\<close> passes on.
\<close>

theorem preformatted_submit_ignores_name:
  assumes "extension s \<noteq> []"
  shows "returnName lc p s = filename p @ [dot] @ lc (extension s)
         \<and> onSubmitHandler lc p (step p s (Change v)) = onSubmitHandler lc p s
         \<and> onSubmitHandler lc p (s\<lparr>name := n\<rparr>) = onSubmitHandler lc p s"
  using assms
  by (simp add: returnName_def onSubmitHandler_def onNameChangeHandler_def split: option.splits)

text \<open>
  C8, at an input: with CSV selected and the file name report, typing edited into the
  field still submits report.csv.
\<close>

theorem preformatted_submit_ignores_name_witness:
  "extension \<lparr>name = str ''report'', dirtyInput = False, extension = str ''CSV''\<rparr> \<noteq> []
   \<and> onSubmitHandler asciiLowerCase
        (defaults\<lparr>filename := str ''report'', onRequestSubmit := Some ''onRequestSubmit''\<rparr>)
        (step (defaults\<lparr>filename := str ''report'', onRequestSubmit := Some ''onRequestSubmit''\<rparr>)
           \<lparr>name = str ''report'', dirtyInput = False, extension = str ''CSV''\<rparr>
           (Change (str ''edited'')))
       = [Invoke ''onRequestSubmit'' [str ''report.csv'']]"
proof -
  let ?p = "defaults\<lparr>filename := str ''report'', onRequestSubmit := Some ''onRequestSubmit''\<rparr>"
  let ?s = "\<lparr>name = str ''report'', dirtyInput = False, extension = str ''CSV''\<rparr>"
  have h: "extension ?s \<noteq> []" by (simp add: str_def)
  have v: "onSubmitHandler asciiLowerCase ?p ?s = [Invoke ''onRequestSubmit'' [str ''report.csv'']]"
    by (simp add: onSubmitHandler_def returnName_def defaults_def dot_def asciiLowerCase_def
        str_def)
  from preformatted_submit_ignores_name [OF h, of asciiLowerCase ?p "str ''edited''"] v h
  show ?thesis by simp
qed

text \<open>
  C9. When the list of preformatted options is non-empty and its first option has no
  extension, or an empty one, the effect leaves the selected extension as it is, so after
  mounting it is still empty; submitting then passes the name state, which is the
  \<open>filename\<close> prop right after mounting, with no dot or extension added.
\<close>

theorem no_preselection_without_extension:
  assumes "preformattedExtensions p = e # es"
    and "opt_extension e = None \<or> opt_extension e = Some []"
    and "onRequestSubmit p = Some f"
  shows "extension (useEffect p s) = extension s
         \<and> extension (useEffect p initialState) = []
         \<and> onSubmitHandler lc p (useEffect p initialState) = [Invoke f [filename p]]
         \<and> (extension s' = [] \<longrightarrow> onSubmitHandler lc p s' = [Invoke f [name s']])"
  using assms
  by (auto simp: useEffect_def onSubmitHandler_def returnName_def initialState_def)

text \<open>C9, at an input: a single option without an extension and the file name report.\<close>

theorem no_preselection_without_extension_witness:
  "extension
     (useEffect
        (defaults\<lparr>filename := str ''report'', onRequestSubmit := Some ''onRequestSubmit'',
           preformattedExtensions :=
             [\<lparr>opt_extension = None, opt_description = Some (str ''as is'')\<rparr>]\<rparr>)
        initialState) = []
   \<and> onSubmitHandler asciiLowerCase
        (defaults\<lparr>filename := str ''report'', onRequestSubmit := Some ''onRequestSubmit'',
           preformattedExtensions :=
             [\<lparr>opt_extension = None, opt_description = Some (str ''as is'')\<rparr>]\<rparr>)
        (useEffect
           (defaults\<lparr>filename := str ''report'', onRequestSubmit := Some ''onRequestSubmit'',
              preformattedExtensions :=
                [\<lparr>opt_extension = None, opt_description = Some (str ''as is'')\<rparr>]\<rparr>)
           initialState)
       = [Invoke ''onRequestSubmit'' [str ''report'']]"
proof -
  let ?e = "\<lparr>opt_extension = None, opt_description = Some (str ''as is'')\<rparr>"
  let ?p = "defaults\<lparr>filename := str ''report'', onRequestSubmit := Some ''onRequestSubmit'',
              preformattedExtensions := [?e]\<rparr>"
  have h1: "preformattedExtensions ?p = ?e # []" by (simp add: defaults_def)
  have h2: "opt_extension ?e = None \<or> opt_extension ?e = Some []" by simp
  have h3: "onRequestSubmit ?p = Some ''onRequestSubmit''" by (simp add: defaults_def)
  have f: "filename ?p = str ''report''" by (simp add: defaults_def)
  from no_preselection_without_extension [OF h1 h2 h3, of initialState asciiLowerCase] f
  show ?thesis by (simp add: initialState_def)
qed

end
